theory Spec2Isabelle
  imports Main
begin

section \<open>JavaScript values\<close>

text \<open>
  The plugin inspects a mongoose schema tree with \<^verbatim>\<open>typeof\<close>, property reads and
  truthiness tests, so the values are modelled with their JavaScript type.
  An object is the list of its own enumerable properties in enumeration order, an array
  the list of its elements, a function its source text and its own properties.
  Numbers are the integers below \<open>10\<^sup>2\<^sup>1\<close> in magnitude, which print with all
  their digits.  Prototype chains are not modelled: none of the property names
  the plugin reads (\<^verbatim>\<open>es_no_index\<close>, \<^verbatim>\<open>prefix\<close>, \<^verbatim>\<open>host\<close>, \<^verbatim>\<open>port\<close>) is
  inherited.
\<close>

datatype jsval =
    JUndefined
  | JNull
  | JBool bool
  | JNum int
  | JStr string
  | JArr "jsval list"
  | JObj "(string \<times> jsval) list"
  | JFun string "(string \<times> jsval) list"

type_synonym props = "(string \<times> jsval) list"

text \<open>
  What an event carries: the error object built by \<^verbatim>\<open>new Error(message)\<close> with its
  \<^verbatim>\<open>details\<close> property, or a plain value.
\<close>

datatype payload = ErrorObject string jsval | Value jsval

type_synonym notification = "string \<times> payload"

text \<open>
  What can be thrown: a TypeError of the language, an exception of a helper, or the
  payload that an event emitter throws when \<^verbatim>\<open>error\<close> is emitted and nothing listens.
\<close>

datatype error = TypeError | HelperError string | Thrown payload

fun js_typeof :: "jsval \<Rightarrow> string" where
  "js_typeof JUndefined = ''undefined''"
| "js_typeof JNull = ''object''"
| "js_typeof (JBool b) = ''boolean''"
| "js_typeof (JNum n) = ''number''"
| "js_typeof (JStr s) = ''string''"
| "js_typeof (JArr xs) = ''object''"
| "js_typeof (JObj ps) = ''object''"
| "js_typeof (JFun src ps) = ''function''"

fun js_truthy :: "jsval \<Rightarrow> bool" where
  "js_truthy JUndefined = False"
| "js_truthy JNull = False"
| "js_truthy (JBool b) = b"
| "js_truthy (JNum n) = (n \<noteq> 0)"
| "js_truthy (JStr s) = (s \<noteq> [])"
| "js_truthy (JArr xs) = True"
| "js_truthy (JObj ps) = True"
| "js_truthy (JFun src ps) = True"

definition lookup :: "props \<Rightarrow> string \<Rightarrow> jsval" where
  "lookup ps name = (case map_of ps name of None \<Rightarrow> JUndefined | Some v \<Rightarrow> v)"

text \<open>
  \<^verbatim>\<open>v.name\<close> for a name that no prototype defines: reading a property of
  \<^verbatim>\<open>undefined\<close> or \<^verbatim>\<open>null\<close> throws a TypeError, a primitive or an array has no
  such property, an object or a function yields its own property or \<^verbatim>\<open>undefined\<close>.
\<close>

fun js_get :: "jsval \<Rightarrow> string \<Rightarrow> error + jsval" where
  "js_get JUndefined name = Inl TypeError"
| "js_get JNull name = Inl TypeError"
| "js_get (JObj ps) name = Inr (lookup ps name)"
| "js_get (JFun src ps) name = Inr (lookup ps name)"
| "js_get v name = Inr JUndefined"

text \<open>
  The values \<^verbatim>\<open>v[key]\<close> for \<^verbatim>\<open>key\<close> running through \<^verbatim>\<open>Object.keys(v)\<close>, for a
  value whose \<^verbatim>\<open>typeof\<close> is \<^verbatim>\<open>'object'\<close> and that is not \<^verbatim>\<open>null\<close>.
\<close>

fun js_own_values :: "jsval \<Rightarrow> jsval list" where
  "js_own_values (JArr xs) = xs"
| "js_own_values (JObj ps) = map (\<lambda>key. lookup ps key) (map fst ps)"
| "js_own_values v = []"

section \<open>Field selection\<close>

text \<open>
  The body of \<^verbatim>\<open>keys.forEach\<close> in \<^verbatim>\<open>getIndexedFields\<close>: every sub-value is
  read, also after \<^verbatim>\<open>foundDontIndex\<close> has been set (the \<^verbatim>\<open>return\<close> leaves the
  callback only), and a sub-value that is \<^verbatim>\<open>null\<close> or \<^verbatim>\<open>undefined\<close> throws.
\<close>

fun forEach_key :: "jsval list \<Rightarrow> bool \<Rightarrow> error + bool" where
  "forEach_key [] foundDontIndex = Inr foundDontIndex"
| "forEach_key (sub # subs) foundDontIndex =
     (case js_get sub ''es_no_index'' of
        Inl e \<Rightarrow> Inl e
      | Inr flag \<Rightarrow> forEach_key subs (if js_truthy flag then True else foundDontIndex))"

text \<open>
  One round of the \<^verbatim>\<open>for (var k in schema.tree)\<close> loop, for the value
  \<^verbatim>\<open>schema.tree[k]\<close>: whether \<^verbatim>\<open>k\<close> is pushed.  \<^verbatim>\<open>typeof\<close> is tested first, so
  \<^verbatim>\<open>null\<close> throws in the first condition and \<^verbatim>\<open>undefined\<close> in the second.
\<close>

definition field_pushed :: "jsval \<Rightarrow> error + bool" where
  "field_pushed v =
     (case js_get v ''es_no_index'' of
        Inl e \<Rightarrow> Inl e
      | Inr flag \<Rightarrow>
          if js_typeof v = ''object'' \<and> \<not> js_truthy flag then
            (case forEach_key (js_own_values v) False of
               Inl e \<Rightarrow> Inl e
             | Inr foundDontIndex \<Rightarrow> Inr (\<not> foundDontIndex))
          else Inr (\<not> js_truthy flag))"

fun for_in_tree :: "props \<Rightarrow> string list \<Rightarrow> error + string list" where
  "for_in_tree [] indexedFields = Inr indexedFields"
| "for_in_tree ((k, v) # rest) indexedFields =
     (case field_pushed v of
        Inl e \<Rightarrow> Inl e
      | Inr push \<Rightarrow> for_in_tree rest (if push then indexedFields @ [k] else indexedFields))"

definition getIndexedFields :: "props \<Rightarrow> error + string list" where
  "getIndexedFields tree = for_in_tree tree []"

text \<open>The vocabulary of the specification, read on a schema tree.\<close>

definition flagged :: "jsval \<Rightarrow> bool" where
  "flagged v = (case js_get v ''es_no_index'' of Inl e \<Rightarrow> False | Inr flag \<Rightarrow> js_truthy flag)"

definition every_subkey_flagged :: "jsval \<Rightarrow> bool" where
  "every_subkey_flagged v = list_all flagged (js_own_values v)"

definition some_subkey_flagged :: "jsval \<Rightarrow> bool" where
  "some_subkey_flagged v = list_ex flagged (js_own_values v)"

definition readable :: "jsval \<Rightarrow> bool" where
  "readable v = (v \<noteq> JUndefined \<and> v \<noteq> JNull)"

text \<open>Whether the loop round for this value throws.\<close>

definition field_ok :: "jsval \<Rightarrow> bool" where
  "field_ok v = (readable v \<and>
     (js_typeof v = ''object'' \<and> \<not> flagged v \<longrightarrow> list_all readable (js_own_values v)))"

definition field_selected :: "jsval \<Rightarrow> bool" where
  "field_selected v =
     (if js_typeof v = ''object'' then \<not> flagged v \<and> \<not> some_subkey_flagged v
      else \<not> flagged v)"

section \<open>String conversion\<close>

text \<open>
  \<^verbatim>\<open>a + '-'\<close> with a string operand converts \<^verbatim>\<open>a\<close> to a string and concatenates.
  The conversion of an object is the one of \<^verbatim>\<open>Object.prototype.toString\<close>; an array
  joins its elements with commas, \<^verbatim>\<open>null\<close> and \<^verbatim>\<open>undefined\<close> elements being empty.
\<close>

definition digit_char :: "nat \<Rightarrow> char" where
  "digit_char d = ''0123456789'' ! d"

fun decimal :: "nat \<Rightarrow> string" where
  "decimal n = (if 10 \<le> n then decimal (n div 10) else []) @ [digit_char (n mod 10)]"

declare decimal.simps [simp del]

definition js_number_to_string :: "int \<Rightarrow> string" where
  "js_number_to_string i = (if 0 \<le> i then decimal (nat i) else CHR ''-'' # decimal (nat (- i)))"

fun join :: "string \<Rightarrow> string list \<Rightarrow> string" where
  "join sep [] = []"
| "join sep [x] = x"
| "join sep (x # y # ys) = x @ sep @ join sep (y # ys)"

fun js_to_string :: "jsval \<Rightarrow> string" where
  "js_to_string JUndefined = ''undefined''"
| "js_to_string JNull = ''null''"
| "js_to_string (JBool b) = (if b then ''true'' else ''false'')"
| "js_to_string (JNum n) = js_number_to_string n"
| "js_to_string (JStr s) = s"
| "js_to_string (JArr xs) =
     join '','' (map (\<lambda>x. if x = JUndefined \<or> x = JNull then [] else js_to_string x) xs)"
| "js_to_string (JObj ps) = ''[object Object]''"
| "js_to_string (JFun src ps) = src"

text \<open>\<^verbatim>\<open>obj[name] = v\<close> on the own properties of an object.\<close>

fun js_set :: "props \<Rightarrow> string \<Rightarrow> jsval \<Rightarrow> props" where
  "js_set [] name v = [(name, v)]"
| "js_set ((k, old) # ps) name v =
     (if k = name then (k, v) # ps else (k, old) # js_set ps name v)"

section \<open>Search across collections\<close>

text \<open>
  \<^verbatim>\<open>searchOpts\<close>: the key \<^verbatim>\<open>collections\<close> is absent (\<open>None\<close>) or an array of
  collection names; the other keys are not read by \<^verbatim>\<open>elmongo.search\<close>.
\<close>

record searchOpts =
  collections :: "string list option"
  rest :: props

definition search_suffix :: string where
  "search_suffix = ''/_search?search_type=dfs_query_then_fetch&preference=_primary_first''"

text \<open>
  Lines 73 to 96 of \<^verbatim>\<open>elmongo.search\<close>: the final value of the local variable
  \<^verbatim>\<open>collections\<close> (\<open>None\<close> when it is still \<^verbatim>\<open>undefined\<close>) and the
  \<^verbatim>\<open>searchOpts\<close> object, which the last branch mutates.
\<close>

definition resolve_collections :: "jsval \<Rightarrow> searchOpts \<Rightarrow> string list option \<times> searchOpts" where
  "resolve_collections prefix sOpts =
     (if js_truthy prefix then
        (case collections sOpts of
           None \<Rightarrow> (Some [js_to_string prefix @ ''*''], sOpts)
         | Some cs \<Rightarrow>
             if length cs \<noteq> 0
             then (Some (map (\<lambda>collection. js_to_string prefix @ ''-'' @ collection) cs), sOpts)
             else (Some [js_to_string prefix @ ''*''], sOpts))
      else
        (case collections sOpts of
           None \<Rightarrow> (None, sOpts\<lparr>collections := Some [''_all'']\<rparr>)
         | Some cs \<Rightarrow> (Some cs, sOpts)))"

definition stored_value :: "props option \<Rightarrow> jsval" where
  "stored_value elasticUrlOptions =
     (case elasticUrlOptions of None \<Rightarrow> JNull | Some ps \<Rightarrow> JObj ps)"

text \<open>
  \<^verbatim>\<open>elmongo.search\<close>.  The helpers \<^verbatim>\<open>mergeOptions\<close> and \<^verbatim>\<open>makeDomainUri\<close> are
  parameters; either may throw.  \<^verbatim>\<open>mergeOptions\<close> lives in another module and
  receives the stored options only, so it is a function of that argument; when it
  returns, it returns an object.  The result is the module variable
  \<^verbatim>\<open>elasticUrlOptions\<close> after the call, the caller's \<^verbatim>\<open>searchOpts\<close> object after
  the call, and either the exception thrown or the URI handed, with that
  \<^verbatim>\<open>searchOpts\<close>, to \<^verbatim>\<open>doSearchAndNormalizeResults\<close>.  Calling \<^verbatim>\<open>join\<close> on a
  \<^verbatim>\<open>collections\<close> that is \<^verbatim>\<open>undefined\<close> throws a TypeError.
\<close>

definition elmongo_search ::
  "(jsval \<Rightarrow> error + props) \<Rightarrow> (props \<Rightarrow> error + string) \<Rightarrow>
   props option \<Rightarrow> searchOpts \<Rightarrow> props option \<times> searchOpts \<times> (error + string)" where
  "elmongo_search mergeOptions makeDomainUri elasticUrlOptions sOpts =
     (case mergeOptions (stored_value elasticUrlOptions) of
        Inl e \<Rightarrow> (elasticUrlOptions, sOpts, Inl e)
      | Inr merged \<Rightarrow>
          (case resolve_collections (lookup merged ''prefix'') sOpts of
             (cs, sOpts') \<Rightarrow>
               (case makeDomainUri merged of
                  Inl e \<Rightarrow> (Some merged, sOpts', Inl e)
                | Inr domainUri \<Rightarrow>
                    (case cs of
                       None \<Rightarrow> (Some merged, sOpts', Inl TypeError)
                     | Some targets \<Rightarrow>
                         (Some merged, sOpts',
                          Inr (domainUri @ ''/'' @ join '','' targets @ search_suffix))))))"

section \<open>Configuration of the search defaults\<close>

text \<open>
  The \<^verbatim>\<open>forEach\<close> of \<^verbatim>\<open>elmongo.search.config\<close> over the keys of the stored object:
  \<^verbatim>\<open>options[key]\<close> throws on the first key when \<^verbatim>\<open>options\<close> is \<^verbatim>\<open>null\<close> or
  \<^verbatim>\<open>undefined\<close>.
\<close>

fun overwrite_keys :: "props \<Rightarrow> jsval \<Rightarrow> error + props" where
  "overwrite_keys [] opts = Inr []"
| "overwrite_keys ((key, old) # ps) opts =
     (case js_get opts key of
        Inl e \<Rightarrow> Inl e
      | Inr new \<Rightarrow>
          (case overwrite_keys ps opts of
             Inl e \<Rightarrow> Inl e
           | Inr ps' \<Rightarrow> Inr ((key, if js_truthy new then new else old) # ps')))"

text \<open>
  \<^verbatim>\<open>elmongo.search.config\<close>: the module variable after the call and the exception
  thrown, if any.  The loop updates the stored object in place; the assignment that
  follows stores the result of \<^verbatim>\<open>helpers.mergeOptions(options)\<close>.
\<close>

definition elmongo_search_config ::
  "(jsval \<Rightarrow> error + props) \<Rightarrow> props option \<Rightarrow> jsval \<Rightarrow> props option \<times> error option" where
  "elmongo_search_config mergeOptions elasticUrlOptions opts =
     (case (case elasticUrlOptions of
              None \<Rightarrow> Inr None
            | Some stored \<Rightarrow>
                (case overwrite_keys stored opts of Inl e \<Rightarrow> Inl e | Inr ps \<Rightarrow> Inr (Some ps))) of
        Inl e \<Rightarrow> (elasticUrlOptions, Some e)
      | Inr updated \<Rightarrow>
          (case mergeOptions opts of
             Inl e \<Rightarrow> (updated, Some e)
           | Inr normalized \<Rightarrow> (Some normalized, None)))"

section \<open>Indexing and unindexing one document\<close>

record reqOpts =
  "method" :: string
  url :: string
  body :: "string option"

text \<open>
  \<^verbatim>\<open>self.emit(name, payload)\<close> on a document, which is an event emitter.  The first
  argument of \<^verbatim>\<open>emit\<close> here tells, for an event name, whether the document has a
  listener for it.  Emitting \<^verbatim>\<open>error\<close> on an emitter without a listener for
  \<^verbatim>\<open>error\<close> throws the payload; every other emission hands the notification to the
  listeners of that name.  What a listener does with it is outside the plugin.
\<close>

definition emit :: "(string \<Rightarrow> bool) \<Rightarrow> string \<Rightarrow> payload \<Rightarrow> error + notification list" where
  "emit hasListener name p =
     (if name = ''error'' \<and> \<not> hasListener ''error'' then Inl (Thrown p) else Inr [(name, p)])"

text \<open>
  Lines 127 to 137 of \<^verbatim>\<open>index\<close>: the request handed to \<^verbatim>\<open>backOffRequest\<close>.
  The helpers \<^verbatim>\<open>serializeModel\<close> and \<^verbatim>\<open>makeDocumentUri\<close> and the built-in
  \<^verbatim>\<open>JSON.stringify\<close> are parameters; each may throw, and the exception leaves
  \<^verbatim>\<open>index\<close> before any request is made.
\<close>

definition index_reqOpts ::
  "('m \<Rightarrow> jsval \<Rightarrow> error + jsval) \<Rightarrow> (jsval \<Rightarrow> 'm \<Rightarrow> error + string) \<Rightarrow>
   (jsval \<Rightarrow> error + string option) \<Rightarrow> 'm \<Rightarrow> jsval \<Rightarrow> error + reqOpts" where
  "index_reqOpts serializeModel makeDocumentUri stringify self opts =
     (case js_get opts ''indexedFields'' of
        Inl e \<Rightarrow> Inl e
      | Inr fieldList \<Rightarrow>
          (case serializeModel self fieldList of
             Inl e \<Rightarrow> Inl e
           | Inr esearchDoc \<Rightarrow>
               (case makeDocumentUri opts self of
                  Inl e \<Rightarrow> Inl e
                | Inr indexUri \<Rightarrow>
                    (case stringify esearchDoc of
                       Inl e \<Rightarrow> Inl e
                     | Inr json \<Rightarrow> Inr \<lparr>method = ''PUT'', url = indexUri, body = json\<rparr>))))"

text \<open>
  Lines 141 to 151: the callback given to \<^verbatim>\<open>backOffRequest\<close>.  It has no
  \<^verbatim>\<open>try\<close>, so what \<^verbatim>\<open>emit\<close> throws leaves the callback.
\<close>

definition index_callback ::
  "(string \<Rightarrow> bool) \<Rightarrow> (jsval \<Rightarrow> string) \<Rightarrow> jsval \<Rightarrow> jsval \<Rightarrow> jsval \<Rightarrow> error + notification list" where
  "index_callback hasListener inspect err res resBody =
     (if js_truthy err
      then emit hasListener ''error''
             (ErrorObject (''Elasticsearch document indexing error: '' @ inspect err) err)
      else emit hasListener ''elmongo-indexed'' (Value resBody))"

text \<open>
  How an operation on one document ends: with an exception that leaves \<^verbatim>\<open>index\<close> or
  \<^verbatim>\<open>unindex\<close> itself, before the request is made; with an exception that leaves the
  callback of the request; or with the notifications emitted.
\<close>

datatype op_result =
    ThrownBeforeRequest error
  | ThrownInCallback error
  | Emitted "notification list"

text \<open>
  \<^verbatim>\<open>index\<close> as a whole.  The helper \<^verbatim>\<open>backOffRequest\<close> is the function from the
  request to the arguments \<^verbatim>\<open>(err, res, body)\<close> with which it calls the callback when
  the request, with its retries, is over; \<^verbatim>\<open>listeners\<close> gives the listeners of a
  document.
\<close>

definition index ::
  "('m \<Rightarrow> jsval \<Rightarrow> error + jsval) \<Rightarrow> (jsval \<Rightarrow> 'm \<Rightarrow> error + string) \<Rightarrow>
   (jsval \<Rightarrow> error + string option) \<Rightarrow> (reqOpts \<Rightarrow> jsval \<times> jsval \<times> jsval) \<Rightarrow>
   ('m \<Rightarrow> string \<Rightarrow> bool) \<Rightarrow> (jsval \<Rightarrow> string) \<Rightarrow> 'm \<Rightarrow> jsval \<Rightarrow> op_result" where
  "index serializeModel makeDocumentUri stringify backOffRequest listeners inspect self opts =
     (case index_reqOpts serializeModel makeDocumentUri stringify self opts of
        Inl e \<Rightarrow> ThrownBeforeRequest e
      | Inr req \<Rightarrow>
          (case backOffRequest req of
             (err, res, resBody) \<Rightarrow>
               (case index_callback (listeners self) inspect err res resBody of
                  Inl e \<Rightarrow> ThrownInCallback e
                | Inr emitted \<Rightarrow> Emitted emitted)))"

definition unindex_reqOpts :: "(jsval \<Rightarrow> 'm \<Rightarrow> error + string) \<Rightarrow> 'm \<Rightarrow> jsval \<Rightarrow> error + reqOpts" where
  "unindex_reqOpts makeDocumentUri self opts =
     (case makeDocumentUri opts self of
        Inl e \<Rightarrow> Inl e
      | Inr unindexUri \<Rightarrow> Inr \<lparr>method = ''DELETE'', url = unindexUri, body = None\<rparr>)"

definition unindex_callback ::
  "(string \<Rightarrow> bool) \<Rightarrow> (jsval \<Rightarrow> string) \<Rightarrow> jsval \<Rightarrow> jsval \<Rightarrow> jsval \<Rightarrow> error + notification list" where
  "unindex_callback hasListener inspect err res resBody =
     (if js_truthy err
      then emit hasListener ''error''
             (ErrorObject (''Elasticsearch document index deletion error: '' @ inspect err) err)
      else emit hasListener ''elmongo-unindexed'' (Value resBody))"

definition unindex ::
  "(jsval \<Rightarrow> 'm \<Rightarrow> error + string) \<Rightarrow> (reqOpts \<Rightarrow> jsval \<times> jsval \<times> jsval) \<Rightarrow>
   ('m \<Rightarrow> string \<Rightarrow> bool) \<Rightarrow> (jsval \<Rightarrow> string) \<Rightarrow> 'm \<Rightarrow> jsval \<Rightarrow> op_result" where
  "unindex makeDocumentUri backOffRequest listeners inspect self opts =
     (case unindex_reqOpts makeDocumentUri self opts of
        Inl e \<Rightarrow> ThrownBeforeRequest e
      | Inr req \<Rightarrow>
          (case backOffRequest req of
             (err, res, resBody) \<Rightarrow>
               (case unindex_callback (listeners self) inspect err res resBody of
                  Inl e \<Rightarrow> ThrownInCallback e
                | Inr emitted \<Rightarrow> Emitted emitted)))"

section \<open>The plugin\<close>

text \<open>
  The closure that \<^verbatim>\<open>elmongo(schema, options)\<close> creates: the variable \<^verbatim>\<open>options\<close>,
  which every hook reassigns, and the variable \<^verbatim>\<open>indexedFields\<close>, assigned once.
\<close>

record plugin =
  options :: jsval
  indexedFields :: "string list"

definition elmongo :: "props \<Rightarrow> jsval \<Rightarrow> error + plugin" where
  "elmongo tree opts =
     (case getIndexedFields tree of
        Inl e \<Rightarrow> Inl e
      | Inr fieldList \<Rightarrow> Inr \<lparr>options = opts, indexedFields = fieldList\<rparr>)"

text \<open>
  The functions and hooks attached to the schema, with their \<^verbatim>\<open>this\<close>; the static
  \<^verbatim>\<open>sync\<close> comes with the schema tree as it is when it runs.  Each one ends in a call
  of \<^verbatim>\<open>sync\<close>, \<^verbatim>\<open>doSearchAndNormalizeResults\<close>, \<^verbatim>\<open>this.index\<close> or
  \<^verbatim>\<open>this.unindex\<close>, recorded with its arguments.  The helpers
  \<^verbatim>\<open>mergeModelOptions\<close> and \<^verbatim>\<open>makeTypeUri\<close> are parameters; either may throw, in
  which case the closure variable \<^verbatim>\<open>options\<close> keeps the value it had when the
  exception left the hook.  When \<^verbatim>\<open>mergeModelOptions\<close> returns, it returns an
  object.
\<close>

datatype 'm hook =
    StaticsSync 'm props
  | StaticsSearch 'm searchOpts
  | PostSave 'm
  | PostRemove 'm
  | DeleteFromIndex 'm

datatype 'm call =
    SyncCall 'm props props
  | SearchCall string searchOpts
  | IndexCall 'm props
  | UnindexCall 'm props

fun hook_step ::
  "(jsval \<Rightarrow> 'm \<Rightarrow> error + props) \<Rightarrow> (props \<Rightarrow> error + string) \<Rightarrow>
   plugin \<Rightarrow> 'm hook \<Rightarrow> plugin \<times> (error + 'm call)" where
  "hook_step mergeModelOptions makeTypeUri st (StaticsSync this tree) =
     (case mergeModelOptions (options st) this of
        Inl e \<Rightarrow> (st, Inl e)
      | Inr merged \<Rightarrow>
          (let opts = js_set merged ''indexedFields'' (JArr (map JStr (indexedFields st)))
           in (st\<lparr>options := JObj opts\<rparr>, Inr (SyncCall this tree opts))))"
| "hook_step mergeModelOptions makeTypeUri st (StaticsSearch this sOpts) =
     (case mergeModelOptions (options st) this of
        Inl e \<Rightarrow> (st, Inl e)
      | Inr merged \<Rightarrow>
          (case makeTypeUri merged of
             Inl e \<Rightarrow> (st\<lparr>options := JObj merged\<rparr>, Inl e)
           | Inr typeUri \<Rightarrow>
               (st\<lparr>options := JObj merged\<rparr>, Inr (SearchCall (typeUri @ search_suffix) sOpts))))"
| "hook_step mergeModelOptions makeTypeUri st (PostSave this) =
     (case mergeModelOptions (options st) this of
        Inl e \<Rightarrow> (st, Inl e)
      | Inr merged \<Rightarrow>
          (let opts = js_set merged ''indexedFields'' (JArr (map JStr (indexedFields st)))
           in (st\<lparr>options := JObj opts\<rparr>, Inr (IndexCall this opts))))"
| "hook_step mergeModelOptions makeTypeUri st (PostRemove this) =
     (case mergeModelOptions (options st) this of
        Inl e \<Rightarrow> (st, Inl e)
      | Inr merged \<Rightarrow> (st\<lparr>options := JObj merged\<rparr>, Inr (UnindexCall this merged)))"
| "hook_step mergeModelOptions makeTypeUri st (DeleteFromIndex this) =
     (case mergeModelOptions (options st) this of
        Inl e \<Rightarrow> (st, Inl e)
      | Inr merged \<Rightarrow> (st\<lparr>options := JObj merged\<rparr>, Inr (UnindexCall this merged)))"

fun run_hooks ::
  "(jsval \<Rightarrow> 'm \<Rightarrow> error + props) \<Rightarrow> (props \<Rightarrow> error + string) \<Rightarrow>
   plugin \<Rightarrow> 'm hook list \<Rightarrow> (error + 'm call) list" where
  "run_hooks mergeModelOptions makeTypeUri st [] = []"
| "run_hooks mergeModelOptions makeTypeUri st (h # hs) =
     snd (hook_step mergeModelOptions makeTypeUri st h)
     # run_hooks mergeModelOptions makeTypeUri (fst (hook_step mergeModelOptions makeTypeUri st h)) hs"

text \<open>The field set a call hands to serialization, for the calls that serialize.\<close>

fun supplied_fields :: "'m call \<Rightarrow> jsval option" where
  "supplied_fields (SyncCall this tree opts) = Some (lookup opts ''indexedFields'')"
| "supplied_fields (IndexCall this opts) = Some (lookup opts ''indexedFields'')"
| "supplied_fields (SearchCall uri sOpts) = None"
| "supplied_fields (UnindexCall this opts) = None"

section \<open>The URI helpers\<close>

text \<open>
  Modelled from the spec: \<^verbatim>\<open>helpers.makeDomainUri\<close> is not among the sources.  The
  specification gives the search request as
  \<^verbatim>\<open>{host}:{port}/{target}/_search?...\<close>, so the domain URI is the host, a colon and
  the port.
\<close>

definition makeDomainUri_spec :: "props \<Rightarrow> error + string" where
  "makeDomainUri_spec opts =
     Inr (js_to_string (lookup opts ''host'') @ '':'' @ js_to_string (lookup opts ''port''))"

text \<open>
  Modelled from the spec: \<^verbatim>\<open>helpers.makeTypeUri\<close> is not among the sources.  The
  specification addresses a document as \<^verbatim>\<open>{host}:{port}/{index}/{type}/{id}\<close>, so the
  type URI is the domain URI followed by the configured index and type.
\<close>

definition makeTypeUri_spec :: "props \<Rightarrow> error + string" where
  "makeTypeUri_spec opts =
     Inr (js_to_string (lookup opts ''host'') @ '':'' @ js_to_string (lookup opts ''port'')
          @ ''/'' @ js_to_string (lookup opts ''index'') @ ''/'' @ js_to_string (lookup opts ''type''))"

section \<open>Properties of field selection\<close>

lemma js_get_Inr_iff: "(\<exists>x. js_get v name = Inr x) = readable v"
  by (cases v) (simp_all add: readable_def)

lemma js_get_Inl: "js_get v name = Inl e \<Longrightarrow> \<not> readable v"
  by (cases v) (simp_all add: readable_def)

lemma forEach_key_Inr:
  "list_all readable subs \<Longrightarrow>
   forEach_key subs found = Inr (found \<or> list_ex flagged subs)"
proof (induction subs arbitrary: found)
  case Nil
  then show ?case by simp
next
  case (Cons sub subs)
  from Cons.prems have r: "readable sub" and rs: "list_all readable subs" by simp_all
  from r obtain flag where g: "js_get sub ''es_no_index'' = Inr flag"
    using js_get_Inr_iff by blast
  then have f: "flagged sub = js_truthy flag" by (simp add: flagged_def)
  show ?case using Cons.IH [OF rs] g f by auto
qed

lemma forEach_key_Inl:
  "\<not> list_all readable subs \<Longrightarrow> \<exists>e. forEach_key subs found = Inl e"
proof (induction subs arbitrary: found)
  case Nil
  then show ?case by simp
next
  case (Cons sub subs)
  show ?case
  proof (cases "js_get sub ''es_no_index''")
    case (Inl e)
    then show ?thesis by simp
  next
    case (Inr flag)
    then have "readable sub" using js_get_Inr_iff by blast
    with Cons.prems have "\<not> list_all readable subs" by simp
    from Cons.IH [OF this] Inr show ?thesis by simp
  qed
qed

lemma field_pushed_ok: "field_ok v \<Longrightarrow> field_pushed v = Inr (field_selected v)"
proof -
  assume ok: "field_ok v"
  then have "readable v" by (simp add: field_ok_def)
  then obtain flag where g: "js_get v ''es_no_index'' = Inr flag"
    using js_get_Inr_iff by blast
  then have f: "flagged v = js_truthy flag" by (simp add: flagged_def)
  show ?thesis
  proof (cases "js_typeof v = ''object'' \<and> \<not> js_truthy flag")
    case True
    with ok f have "list_all readable (js_own_values v)" by (simp add: field_ok_def)
    from forEach_key_Inr [OF this, of False] True g f show ?thesis
      by (simp add: field_pushed_def field_selected_def some_subkey_flagged_def)
  next
    case False
    with g f show ?thesis
      by (auto simp: field_pushed_def field_selected_def)
  qed
qed

lemma field_pushed_not_ok: "\<not> field_ok v \<Longrightarrow> \<exists>e. field_pushed v = Inl e"
proof (cases "js_get v ''es_no_index''")
  case (Inl e)
  then show ?thesis by (simp add: field_pushed_def)
next
  case (Inr flag)
  assume bad: "\<not> field_ok v"
  from Inr have r: "readable v" using js_get_Inr_iff by blast
  from Inr have f: "flagged v = js_truthy flag" by (simp add: flagged_def)
  from bad r have c: "js_typeof v = ''object'' \<and> \<not> flagged v"
    and n: "\<not> list_all readable (js_own_values v)"
    by (auto simp: field_ok_def)
  from forEach_key_Inl [OF n, of False] obtain e
    where "forEach_key (js_own_values v) False = Inl e" by blast
  with Inr c f show ?thesis by (simp add: field_pushed_def)
qed

lemma for_in_tree_ok:
  "list_all (\<lambda>(k, v). field_ok v) tree \<Longrightarrow>
   for_in_tree tree acc = Inr (acc @ map fst (filter (\<lambda>(k, v). field_selected v) tree))"
proof (induction tree arbitrary: acc)
  case Nil
  then show ?case by simp
next
  case (Cons kv tree)
  obtain k v where kv: "kv = (k, v)" by (cases kv)
  from Cons.prems kv have ok: "field_ok v" and rest: "list_all (\<lambda>(k, v). field_ok v) tree"
    by simp_all
  show ?case using Cons.IH [OF rest] field_pushed_ok [OF ok] kv by simp
qed

lemma for_in_tree_not_ok:
  "\<not> list_all (\<lambda>(k, v). field_ok v) tree \<Longrightarrow> \<exists>e. for_in_tree tree acc = Inl e"
proof (induction tree arbitrary: acc)
  case Nil
  then show ?case by simp
next
  case (Cons kv tree)
  obtain k v where kv: "kv = (k, v)" by (cases kv)
  show ?case
  proof (cases "field_ok v")
    case True
    with Cons.prems kv have "\<not> list_all (\<lambda>(k, v). field_ok v) tree" by simp
    from Cons.IH [OF this] field_pushed_ok [OF True] kv show ?thesis by simp
  next
    case False
    from field_pushed_not_ok [OF this] kv show ?thesis by auto
  qed
qed

lemma getIndexedFields_Inr:
  "getIndexedFields tree = Inr fs \<Longrightarrow>
   list_all (\<lambda>(k, v). field_ok v) tree \<and>
   fs = map fst (filter (\<lambda>(k, v). field_selected v) tree)"
proof -
  assume r: "getIndexedFields tree = Inr fs"
  have ok: "list_all (\<lambda>(k, v). field_ok v) tree"
  proof (rule ccontr)
    assume "\<not> list_all (\<lambda>(k, v). field_ok v) tree"
    from for_in_tree_not_ok [OF this, of "[]"] r show False
      by (auto simp: getIndexedFields_def)
  qed
  from for_in_tree_ok [OF ok, of "[]"] r ok show ?thesis
    by (simp add: getIndexedFields_def)
qed

lemma selected_member:
  "distinct (map fst tree) \<Longrightarrow> (k, v) \<in> set tree \<Longrightarrow>
   (k \<in> set (map fst (filter (\<lambda>(k, v). P v) tree))) = P v"
proof (induction tree)
  case Nil
  then show ?case by simp
next
  case (Cons kv tree)
  obtain k' v' where kv: "kv = (k', v')" by (cases kv)
  show ?case
  proof (cases "(k, v) = (k', v')")
    case True
    with Cons.prems kv have "k \<notin> fst ` set tree" by simp
    then have "k \<notin> fst ` set (filter (\<lambda>(k, v). P v) tree)" by auto
    with True kv show ?thesis by auto
  next
    case False
    with Cons.prems kv have m: "(k, v) \<in> set tree" and d: "distinct (map fst tree)"
      by auto
    from Cons.prems kv m have "k \<noteq> k'" by (auto simp: image_iff)
    with Cons.IH [OF d m] kv show ?thesis by auto
  qed
qed

lemma getIndexedFields_returns:
  "list_all (\<lambda>(k, v). field_ok v) tree \<Longrightarrow>
   getIndexedFields tree = Inr (map fst (filter (\<lambda>(k, v). field_selected v) tree))"
  using for_in_tree_ok [of tree "[]"] by (simp add: getIndexedFields_def)

lemma getIndexedFields_member:
  assumes "getIndexedFields tree = Inr fs"
    and "distinct (map fst tree)"
    and "(k, v) \<in> set tree"
  shows "(k \<in> set fs) = field_selected v"
proof -
  from getIndexedFields_Inr [OF assms(1)]
  have "fs = map fst (filter (\<lambda>(k, v). field_selected v) tree)" by simp
  with selected_member [OF assms(2) assms(3), of field_selected] show ?thesis by simp
qed

text \<open>
  Claim C1, as the specification states it: a top-level field whose declaration is an
  object is left out of the result exactly when every one of its sub-keys is flagged
  \<^verbatim>\<open>es_no_index\<close>.  The code does not do that.  In the schema below the field
  \<^verbatim>\<open>address\<close> has a flagged sub-key \<^verbatim>\<open>street\<close> and an unflagged sub-key
  \<^verbatim>\<open>city\<close>; \<^verbatim>\<open>getIndexedFields\<close> returns the empty list, so \<^verbatim>\<open>address\<close> is
  left out although not every sub-key is flagged.
\<close>

theorem getIndexedFields_unanimity_counterexample:
  "getIndexedFields
     [(''address'', JObj [(''street'', JObj [(''type'', JStr ''String''), (''es_no_index'', JBool True)]),
                          (''city'', JObj [(''type'', JStr ''String'')])])] = Inr []
   \<and> js_typeof (JObj [(''street'', JObj [(''type'', JStr ''String''), (''es_no_index'', JBool True)]),
                     (''city'', JObj [(''type'', JStr ''String'')])]) = ''object''
   \<and> \<not> every_subkey_flagged
         (JObj [(''street'', JObj [(''type'', JStr ''String''), (''es_no_index'', JBool True)]),
                (''city'', JObj [(''type'', JStr ''String'')])])"
  by (simp add: getIndexedFields_def field_pushed_def lookup_def every_subkey_flagged_def
      flagged_def)

text \<open>
  Claim C1, amended: whenever \<^verbatim>\<open>getIndexedFields\<close> returns, a top-level field whose
  declaration is an object is left out of the result exactly when the declaration itself
  is flagged \<^verbatim>\<open>es_no_index\<close> or at least one of its sub-keys is.
\<close>

theorem getIndexedFields_object_field:
  assumes "getIndexedFields tree = Inr fs"
    and "distinct (map fst tree)"
    and "(k, v) \<in> set tree"
    and "js_typeof v = ''object''"
  shows "(k \<notin> set fs) = (flagged v \<or> some_subkey_flagged v)"
proof -
  from getIndexedFields_member [OF assms(1) assms(2) assms(3)]
  have "(k \<in> set fs) = field_selected v" .
  with assms(4) show ?thesis by (simp add: field_selected_def)
qed

theorem getIndexedFields_object_field_witness:
  "getIndexedFields
     [(''name'', JObj [(''type'', JStr ''String'')]),
      (''address'', JObj [(''street'', JObj [(''es_no_index'', JBool True)]),
                          (''city'', JObj [])])] = Inr [''name'']
   \<and> some_subkey_flagged (JObj [(''street'', JObj [(''es_no_index'', JBool True)]),
                                (''city'', JObj [])])
   \<and> ''address'' \<notin> set [''name'']"
proof -
  let ?addr = "JObj [(''street'', JObj [(''es_no_index'', JBool True)]), (''city'', JObj [])]"
  let ?tree = "[(''name'', JObj [(''type'', JStr ''String'')]), (''address'', ?addr)]"
  have r: "getIndexedFields ?tree = Inr [''name'']"
    by (simp add: getIndexedFields_def field_pushed_def lookup_def)
  have d: "distinct (map fst ?tree)" by simp
  have m: "(''address'', ?addr) \<in> set ?tree" by simp
  have t: "js_typeof ?addr = ''object''" by simp
  have s: "some_subkey_flagged ?addr"
    by (simp add: some_subkey_flagged_def flagged_def lookup_def)
  from getIndexedFields_object_field [OF r d m t] r s show ?thesis by simp
qed

text \<open>
  Claim C6, as the specification states it: on every schema a top-level field whose
  declaration is not an object is left out of the result exactly when it is flagged.
  The code does not return a result on every schema.  Below, \<^verbatim>\<open>name\<close> is declared
  as \<^verbatim>\<open>String\<close>, unflagged, and \<^verbatim>\<open>title\<close> as
  \<^verbatim>\<open>{type: String, default: null}\<close>; reading \<^verbatim>\<open>es_no_index\<close> of the \<^verbatim>\<open>null\<close>
  throws a TypeError, so there is no field set and \<^verbatim>\<open>name\<close> is not selected.
\<close>

theorem getIndexedFields_null_subkey_counterexample:
  "getIndexedFields
     [(''name'', JFun ''function String() { [native code] }'' []),
      (''title'', JObj [(''type'', JFun ''function String() { [native code] }'' []),
                        (''default'', JNull)])] = Inl TypeError
   \<and> js_typeof (JFun ''function String() { [native code] }'' []) \<noteq> ''object''
   \<and> \<not> flagged (JFun ''function String() { [native code] }'' [])"
  by (simp add: getIndexedFields_def field_pushed_def lookup_def flagged_def)

text \<open>
  Claim C6, amended: \<^verbatim>\<open>getIndexedFields\<close> returns on every schema in which no
  declaration, and no sub-key value of an unflagged object declaration, is \<^verbatim>\<open>null\<close>
  or \<^verbatim>\<open>undefined\<close>; whenever it returns, a top-level field whose declaration is not an
  object (\<^verbatim>\<open>typeof\<close> is not \<^verbatim>\<open>'object'\<close>) is left out of the result exactly when
  the declaration is flagged \<^verbatim>\<open>es_no_index\<close>; and the empty schema yields the empty
  list, without an error.
\<close>

theorem getIndexedFields_simple_field:
  "getIndexedFields [] = Inr [] \<and>
   (list_all (\<lambda>(k, v). field_ok v) tree \<longrightarrow> (\<exists>fs. getIndexedFields tree = Inr fs)) \<and>
   (getIndexedFields tree = Inr fs \<longrightarrow> distinct (map fst tree) \<longrightarrow> (k, v) \<in> set tree \<longrightarrow>
    js_typeof v \<noteq> ''object'' \<longrightarrow> (k \<notin> set fs) = flagged v)"
proof (intro conjI impI)
  show "getIndexedFields [] = Inr []" by (simp add: getIndexedFields_def)
next
  assume "list_all (\<lambda>(k, v). field_ok v) tree"
  from getIndexedFields_returns [OF this] show "\<exists>fs. getIndexedFields tree = Inr fs" by blast
next
  assume r: "getIndexedFields tree = Inr fs" and d: "distinct (map fst tree)"
    and m: "(k, v) \<in> set tree" and t: "js_typeof v \<noteq> ''object''"
  from getIndexedFields_member [OF r d m] t show "(k \<notin> set fs) = flagged v"
    by (simp add: field_selected_def)
qed

theorem getIndexedFields_simple_field_witness:
  "list_all (\<lambda>(k, v). field_ok v)
     [(''name'', JFun ''function String() { [native code] }'' []),
      (''token'', JFun ''function String() { [native code] }'' [(''es_no_index'', JBool True)]),
      (''title'', JObj [(''type'', JFun ''function String() { [native code] }'' [])])]
   \<and> getIndexedFields
     [(''name'', JFun ''function String() { [native code] }'' []),
      (''token'', JFun ''function String() { [native code] }'' [(''es_no_index'', JBool True)]),
      (''title'', JObj [(''type'', JFun ''function String() { [native code] }'' [])])]
     = Inr [''name'', ''title'']
   \<and> flagged (JFun ''function String() { [native code] }'' [(''es_no_index'', JBool True)])
   \<and> ''token'' \<notin> set [''name'', ''title'']"
proof -
  let ?tok = "JFun ''function String() { [native code] }'' [(''es_no_index'', JBool True)]"
  let ?tree = "[(''name'', JFun ''function String() { [native code] }'' []), (''token'', ?tok),
                (''title'', JObj [(''type'', JFun ''function String() { [native code] }'' [])])]"
  have ok: "list_all (\<lambda>(k, v). field_ok v) ?tree"
    by (simp add: field_ok_def readable_def flagged_def lookup_def)
  have d: "distinct (map fst ?tree)" by simp
  have m: "(''token'', ?tok) \<in> set ?tree" by simp
  have t: "js_typeof ?tok \<noteq> ''object''" by simp
  have f: "flagged ?tok" by (simp add: flagged_def lookup_def)
  have e: "getIndexedFields ?tree = Inr [''name'', ''title'']"
    by (simp add: getIndexedFields_def field_pushed_def lookup_def)
  from getIndexedFields_simple_field [of ?tree "[''name'', ''title'']" "''token''" ?tok] e d m t f ok
  show ?thesis by simp
qed

text \<open>
  Claim C10: whenever \<^verbatim>\<open>getIndexedFields\<close> returns, a top-level field whose
  declaration is an object that itself carries the \<^verbatim>\<open>es_no_index\<close> flag is left out of
  the result, whatever its sub-keys are.
\<close>

theorem getIndexedFields_own_flag:
  assumes "getIndexedFields tree = Inr fs"
    and "distinct (map fst tree)"
    and "(k, v) \<in> set tree"
    and "js_typeof v = ''object''"
    and "flagged v"
  shows "k \<notin> set fs"
proof -
  from getIndexedFields_member [OF assms(1) assms(2) assms(3)]
  have "(k \<in> set fs) = field_selected v" .
  with assms(4) assms(5) show ?thesis by (simp add: field_selected_def)
qed

theorem getIndexedFields_own_flag_witness:
  "getIndexedFields
     [(''secret'', JObj [(''type'', JStr ''String''), (''es_no_index'', JBool True),
                         (''default'', JNull)]),
      (''name'', JObj [(''type'', JStr ''String'')])] = Inr [''name'']
   \<and> ''secret'' \<notin> set [''name'']"
proof -
  let ?sec = "JObj [(''type'', JStr ''String''), (''es_no_index'', JBool True), (''default'', JNull)]"
  let ?tree = "[(''secret'', ?sec), (''name'', JObj [(''type'', JStr ''String'')])]"
  have r: "getIndexedFields ?tree = Inr [''name'']"
    by (simp add: getIndexedFields_def field_pushed_def lookup_def)
  have d: "distinct (map fst ?tree)" by simp
  have m: "(''secret'', ?sec) \<in> set ?tree" by simp
  have t: "js_typeof ?sec = ''object''" by simp
  have f: "flagged ?sec" by (simp add: flagged_def lookup_def)
  from getIndexedFields_own_flag [OF r d m t f] r show ?thesis by simp
qed

section \<open>Properties of the search across collections\<close>

lemma resolve_collections_prefixed:
  "js_truthy prefix \<Longrightarrow>
   resolve_collections prefix sOpts =
     (Some (case collections sOpts of
              None \<Rightarrow> [js_to_string prefix @ ''*'']
            | Some [] \<Rightarrow> [js_to_string prefix @ ''*'']
            | Some (c # cs) \<Rightarrow> map (\<lambda>name. js_to_string prefix @ ''-'' @ name) (c # cs)),
      sOpts)"
  by (simp add: resolve_collections_def split: option.splits list.splits)

text \<open>
  Claim C5: when the merged options carry a prefix (a truthy \<^verbatim>\<open>prefix\<close>), a non-empty
  \<^verbatim>\<open>collections\<close> list resolves to the listed names, in order, each prepended with
  the prefix and \<^verbatim>\<open>-\<close>, and an empty or absent list to the single target prefix
  followed by \<^verbatim>\<open>*\<close>; the search is issued against these targets, joined with commas.
\<close>

theorem elmongo_search_prefixed:
  assumes "mergeOptions (stored_value elasticUrlOptions) = Inr merged"
    and "js_truthy (lookup merged ''prefix'')"
    and "makeDomainUri merged = Inr domainUri"
  shows "elmongo_search mergeOptions makeDomainUri elasticUrlOptions sOpts =
     (Some merged, sOpts,
      Inr (domainUri @ ''/'' @
           join '',''
             (case collections sOpts of
                None \<Rightarrow> [js_to_string (lookup merged ''prefix'') @ ''*'']
              | Some [] \<Rightarrow> [js_to_string (lookup merged ''prefix'') @ ''*'']
              | Some (c # cs) \<Rightarrow>
                  map (\<lambda>name. js_to_string (lookup merged ''prefix'') @ ''-'' @ name) (c # cs))
           @ search_suffix))"
  using assms resolve_collections_prefixed [OF assms(2), of sOpts]
  by (simp add: elmongo_search_def)

theorem elmongo_search_prefixed_witness:
  "elmongo_search
     (\<lambda>stored. Inr [(''host'', JStr ''localhost''), (''port'', JNum 9200), (''prefix'', JStr ''qa'')])
     (\<lambda>merged. Inr ''http://localhost:9200'')
     None \<lparr>collections = Some [''users'', ''orders''], rest = []\<rparr> =
     (Some [(''host'', JStr ''localhost''), (''port'', JNum 9200), (''prefix'', JStr ''qa'')],
      \<lparr>collections = Some [''users'', ''orders''], rest = []\<rparr>,
      Inr ''http://localhost:9200/qa-users,qa-orders/_search?search_type=dfs_query_then_fetch&preference=_primary_first'')"
proof -
  let ?merged = "[(''host'', JStr ''localhost''), (''port'', JNum 9200), (''prefix'', JStr ''qa'')]"
  have t: "js_truthy (lookup ?merged ''prefix'')" by (simp add: lookup_def)
  have p: "js_to_string (lookup ?merged ''prefix'') = ''qa''" by (simp add: lookup_def)
  from elmongo_search_prefixed [of "\<lambda>stored. Inr ?merged" None ?merged
      "\<lambda>merged. Inr ''http://localhost:9200''" "''http://localhost:9200''"
      "\<lparr>collections = Some [''users'', ''orders''], rest = []\<rparr>", OF refl t refl]
  show ?thesis unfolding p by (simp add: search_suffix_def)
qed

text \<open>
  Claim C9: without a prefix (a falsy \<^verbatim>\<open>prefix\<close> in the merged options) and with a
  \<^verbatim>\<open>collections\<close> list that is present and empty, the list is not replaced by
  \<^verbatim>\<open>_all\<close>: \<^verbatim>\<open>searchOpts\<close> is passed on unchanged and the target segment of the
  request URI, between the domain and \<^verbatim>\<open>/_search\<close>, is the empty string.
\<close>

theorem elmongo_search_empty_collections:
  assumes "mergeOptions (stored_value elasticUrlOptions) = Inr merged"
    and "\<not> js_truthy (lookup merged ''prefix'')"
    and "makeDomainUri merged = Inr domainUri"
    and "collections sOpts = Some []"
  shows "elmongo_search mergeOptions makeDomainUri elasticUrlOptions sOpts =
     (Some merged, sOpts, Inr (domainUri @ ''/'' @ [] @ search_suffix))"
  using assms by (simp add: elmongo_search_def resolve_collections_def)

theorem elmongo_search_empty_collections_witness:
  "elmongo_search
     (\<lambda>stored. Inr [(''host'', JStr ''localhost''), (''port'', JNum 9200)])
     (\<lambda>merged. Inr ''http://localhost:9200'')
     None \<lparr>collections = Some [], rest = []\<rparr> =
     (Some [(''host'', JStr ''localhost''), (''port'', JNum 9200)],
      \<lparr>collections = Some [], rest = []\<rparr>,
      Inr ''http://localhost:9200//_search?search_type=dfs_query_then_fetch&preference=_primary_first'')"
proof -
  let ?merged = "[(''host'', JStr ''localhost''), (''port'', JNum 9200)]"
  have t: "\<not> js_truthy (lookup ?merged ''prefix'')" by (simp add: lookup_def)
  from elmongo_search_empty_collections [of "\<lambda>stored. Inr ?merged" None ?merged
      "\<lambda>merged. Inr ''http://localhost:9200''" "''http://localhost:9200''"
      "\<lparr>collections = Some [], rest = []\<rparr>", OF refl t refl]
  show ?thesis by (simp add: search_suffix_def)
qed

text \<open>
  Claim C2 says that without a prefix and without \<^verbatim>\<open>collections\<close> the search goes to
  the target \<^verbatim>\<open>_all\<close>.  The code assigns \<^verbatim>\<open>['_all']\<close> to
  \<^verbatim>\<open>searchOpts.collections\<close> and leaves the local variable \<^verbatim>\<open>collections\<close>
  undefined, so that \<^verbatim>\<open>collections.join\<close> throws a TypeError: no request is built.
\<close>

theorem elmongo_search_absent_collections:
  assumes "mergeOptions (stored_value elasticUrlOptions) = Inr merged"
    and "\<not> js_truthy (lookup merged ''prefix'')"
    and "makeDomainUri merged = Inr domainUri"
    and "collections sOpts = None"
  shows "elmongo_search mergeOptions makeDomainUri elasticUrlOptions sOpts =
     (Some merged, sOpts\<lparr>collections := Some [''_all'']\<rparr>, Inl TypeError)"
  using assms by (simp add: elmongo_search_def resolve_collections_def)

theorem elmongo_search_absent_collections_witness:
  "elmongo_search
     (\<lambda>stored. Inr [(''host'', JStr ''localhost''), (''port'', JNum 9200)])
     (\<lambda>merged. Inr ''http://localhost:9200'')
     None \<lparr>collections = None, rest = [(''query'', JStr ''hello'')]\<rparr> =
     (Some [(''host'', JStr ''localhost''), (''port'', JNum 9200)],
      \<lparr>collections = Some [''_all''], rest = [(''query'', JStr ''hello'')]\<rparr>,
      Inl TypeError)"
proof -
  let ?merged = "[(''host'', JStr ''localhost''), (''port'', JNum 9200)]"
  have t: "\<not> js_truthy (lookup ?merged ''prefix'')" by (simp add: lookup_def)
  from elmongo_search_absent_collections [of "\<lambda>stored. Inr ?merged" None ?merged
      "\<lambda>merged. Inr ''http://localhost:9200''" "''http://localhost:9200''"
      "\<lparr>collections = None, rest = [(''query'', JStr ''hello'')]\<rparr>", OF refl t refl]
  show ?thesis by simp
qed

section \<open>Properties of the configuration\<close>

lemma overwrite_keys_readable:
  "readable opts \<Longrightarrow> \<exists>ps. overwrite_keys stored opts = Inr ps"
proof (induction stored)
  case Nil
  then show ?case by simp
next
  case (Cons kv stored)
  obtain key old where kv: "kv = (key, old)" by (cases kv)
  from Cons.prems obtain new where g: "js_get opts key = Inr new"
    using js_get_Inr_iff by blast
  from Cons.IH [OF Cons.prems] obtain ps where "overwrite_keys stored opts = Inr ps" ..
  with g kv show ?case by simp
qed

text \<open>
  Claim C3 says that a second call of \<^verbatim>\<open>elmongo.search.config\<close> keeps the stored
  values of the keys it does not mention.  On the code, the stored defaults after a call
  with an options object are the result of \<^verbatim>\<open>mergeOptions\<close> on that object alone,
  whatever was stored before: the object the loop has updated is dropped by the
  assignment that follows.
\<close>

theorem elmongo_search_config_replaces_stored:
  assumes "mergeOptions (JObj opts) = Inr normalized"
  shows "elmongo_search_config mergeOptions elasticUrlOptions (JObj opts) = (Some normalized, None)"
proof (cases elasticUrlOptions)
  case None
  with assms show ?thesis by (simp add: elmongo_search_config_def)
next
  case (Some stored)
  have "readable (JObj opts)" by (simp add: readable_def)
  from overwrite_keys_readable [OF this] obtain ps
    where "overwrite_keys stored (JObj opts) = Inr ps" ..
  with Some assms show ?thesis by (simp add: elmongo_search_config_def)
qed

theorem elmongo_search_config_replaces_stored_witness:
  "elmongo_search_config (\<lambda>opts. case opts of JObj ps \<Rightarrow> Inr ps | _ \<Rightarrow> Inr [])
     (fst (elmongo_search_config (\<lambda>opts. case opts of JObj ps \<Rightarrow> Inr ps | _ \<Rightarrow> Inr []) None
        (JObj [(''host'', JStr ''es1''), (''port'', JNum 9200), (''prefix'', JStr ''qa'')])))
     (JObj [(''host'', JStr ''es2''), (''port'', JNum 9200)])
   = (Some [(''host'', JStr ''es2''), (''port'', JNum 9200)], None)
   \<and> lookup [(''host'', JStr ''es2''), (''port'', JNum 9200)] ''prefix'' = JUndefined"
proof -
  let ?mo = "\<lambda>opts. case opts of JObj ps \<Rightarrow> Inr ps | _ \<Rightarrow> Inr []"
  have m: "?mo (JObj [(''host'', JStr ''es2''), (''port'', JNum 9200)])
      = (Inr [(''host'', JStr ''es2''), (''port'', JNum 9200)] :: error + props)" by simp
  from elmongo_search_config_replaces_stored [of ?mo, OF m]
  show ?thesis by (simp add: lookup_def)
qed

section \<open>Properties of indexing and unindexing\<close>

text \<open>
  Claim C4, as the specification states it: when the request of an \<^verbatim>\<open>index\<close> or
  \<^verbatim>\<open>unindex\<close> fails, an \<^verbatim>\<open>error\<close> notification is emitted and nothing is ever
  thrown.  The code does not do that on a document without a listener for
  \<^verbatim>\<open>error\<close>: below, the request of \<^verbatim>\<open>index\<close> fails with \<^verbatim>\<open>ECONNREFUSED\<close>,
  and \<^verbatim>\<open>self.emit('error', error)\<close> throws the wrapped error out of the callback; no
  notification is delivered.
\<close>

theorem index_error_without_listener_counterexample:
  "index (\<lambda>self fieldList. Inr (JObj [(''name'', JStr ''Ann'')]))
         (\<lambda>opts self. Inr (''http://localhost:9200/app/users/'' @ self))
         (\<lambda>doc. Inr (Some ''{}''))
         (\<lambda>req. (JStr ''ECONNREFUSED'', JUndefined, JUndefined))
         (\<lambda>self name. False)
         js_to_string ''42'' (JObj [(''indexedFields'', JArr [JStr ''name''])])
     = ThrownInCallback
         (Thrown (ErrorObject ''Elasticsearch document indexing error: ECONNREFUSED''
                    (JStr ''ECONNREFUSED'')))"
  by (simp add: index_def index_reqOpts_def index_callback_def emit_def lookup_def)

text \<open>
  Claim C4, amended: once \<^verbatim>\<open>index\<close> or \<^verbatim>\<open>unindex\<close> has made its request,
  a failed request (a truthy \<^verbatim>\<open>err\<close>) on a document that has a listener for
  \<^verbatim>\<open>error\<close> gives exactly one notification, \<^verbatim>\<open>error\<close>, carrying a new error
  whose \<^verbatim>\<open>details\<close> is \<^verbatim>\<open>err\<close>, no success notification, and nothing is thrown;
  on a document without such a listener the same wrapped error is thrown out of the
  callback of the request and nothing is emitted.  A request that succeeds gives exactly
  one notification, \<^verbatim>\<open>elmongo-indexed\<close>, respectively \<^verbatim>\<open>elmongo-unindexed\<close>,
  carrying the response body, and nothing is thrown.
\<close>

theorem index_unindex_notifications:
  "(index_reqOpts serializeModel makeDocumentUri stringify self opts = Inr req \<longrightarrow>
    backOffRequest req = (err, res, resBody) \<longrightarrow>
    index serializeModel makeDocumentUri stringify backOffRequest listeners inspect self opts =
      (if js_truthy err
       then (if listeners self ''error''
             then Emitted
                    [(''error'',
                      ErrorObject (''Elasticsearch document indexing error: '' @ inspect err) err)]
             else ThrownInCallback
                    (Thrown
                       (ErrorObject (''Elasticsearch document indexing error: '' @ inspect err) err)))
       else Emitted [(''elmongo-indexed'', Value resBody)]))
   \<and>
   (unindex_reqOpts makeDocumentUri self opts = Inr req' \<longrightarrow>
    backOffRequest req' = (err', res', resBody') \<longrightarrow>
    unindex makeDocumentUri backOffRequest listeners inspect self opts =
      (if js_truthy err'
       then (if listeners self ''error''
             then Emitted
                    [(''error'',
                      ErrorObject (''Elasticsearch document index deletion error: '' @ inspect err')
                        err')]
             else ThrownInCallback
                    (Thrown
                       (ErrorObject (''Elasticsearch document index deletion error: '' @ inspect err')
                          err')))
       else Emitted [(''elmongo-unindexed'', Value resBody')]))"
proof (intro conjI impI)
  assume "index_reqOpts serializeModel makeDocumentUri stringify self opts = Inr req"
    and "backOffRequest req = (err, res, resBody)"
  then show "index serializeModel makeDocumentUri stringify backOffRequest listeners inspect self opts =
      (if js_truthy err
       then (if listeners self ''error''
             then Emitted
                    [(''error'',
                      ErrorObject (''Elasticsearch document indexing error: '' @ inspect err) err)]
             else ThrownInCallback
                    (Thrown
                       (ErrorObject (''Elasticsearch document indexing error: '' @ inspect err) err)))
       else Emitted [(''elmongo-indexed'', Value resBody)])"
    by (simp add: index_def index_callback_def emit_def)
next
  assume "unindex_reqOpts makeDocumentUri self opts = Inr req'"
    and "backOffRequest req' = (err', res', resBody')"
  then show "unindex makeDocumentUri backOffRequest listeners inspect self opts =
      (if js_truthy err'
       then (if listeners self ''error''
             then Emitted
                    [(''error'',
                      ErrorObject (''Elasticsearch document index deletion error: '' @ inspect err')
                        err')]
             else ThrownInCallback
                    (Thrown
                       (ErrorObject (''Elasticsearch document index deletion error: '' @ inspect err')
                          err')))
       else Emitted [(''elmongo-unindexed'', Value resBody')])"
    by (simp add: unindex_def unindex_callback_def emit_def)
qed

theorem index_unindex_notifications_witness:
  "index (\<lambda>self fieldList. Inr (JObj [(''name'', JStr ''Ann'')]))
         (\<lambda>opts self. Inr (''http://localhost:9200/app/users/'' @ self))
         (\<lambda>doc. Inr (Some ''{}''))
         (\<lambda>req. if method req = ''PUT'' then (JStr ''ECONNREFUSED'', JUndefined, JUndefined)
                 else (JNull, JObj [], JStr ''ok''))
         (\<lambda>self name. name = ''error'')
         js_to_string ''42'' (JObj [(''indexedFields'', JArr [JStr ''name''])])
     = Emitted [(''error'',
                 ErrorObject ''Elasticsearch document indexing error: ECONNREFUSED''
                   (JStr ''ECONNREFUSED''))]
   \<and>
   unindex (\<lambda>opts self. Inr (''http://localhost:9200/app/users/'' @ self))
         (\<lambda>req. if method req = ''PUT'' then (JStr ''ECONNREFUSED'', JUndefined, JUndefined)
                 else (JNull, JObj [], JStr ''ok''))
         (\<lambda>self name. name = ''error'')
         js_to_string ''42'' (JObj [(''indexedFields'', JArr [JStr ''name''])])
     = Emitted [(''elmongo-unindexed'', Value (JStr ''ok''))]"
proof -
  let ?ser = "\<lambda>(self :: string) (fieldList :: jsval). (Inr (JObj [(''name'', JStr ''Ann'')]) :: error + jsval)"
  let ?uri = "\<lambda>(opts :: jsval) (self :: string). (Inr (''http://localhost:9200/app/users/'' @ self) :: error + string)"
  let ?str = "\<lambda>doc :: jsval. (Inr (Some ''{}'') :: error + string option)"
  let ?req = "\<lambda>req. if method req = ''PUT'' then (JStr ''ECONNREFUSED'', JUndefined, JUndefined)
                 else (JNull, JObj [], JStr ''ok'')"
  let ?lis = "\<lambda>(self :: string) (name :: string). name = ''error''"
  let ?opts = "JObj [(''indexedFields'', JArr [JStr ''name''])]"
  have a: "index_reqOpts ?ser ?uri ?str ''42'' ?opts
      = Inr \<lparr>method = ''PUT'', url = ''http://localhost:9200/app/users/42'', body = Some ''{}''\<rparr>"
    by (simp add: index_reqOpts_def lookup_def)
  have b: "?req \<lparr>method = ''PUT'', url = ''http://localhost:9200/app/users/42'', body = Some ''{}''\<rparr>
      = (JStr ''ECONNREFUSED'', JUndefined, JUndefined)" by simp
  have c: "unindex_reqOpts ?uri ''42'' ?opts
      = Inr \<lparr>method = ''DELETE'', url = ''http://localhost:9200/app/users/42'', body = None\<rparr>"
    by (simp add: unindex_reqOpts_def)
  have d: "?req \<lparr>method = ''DELETE'', url = ''http://localhost:9200/app/users/42'', body = None\<rparr>
      = (JNull, JObj [], JStr ''ok'')" by simp
  from index_unindex_notifications [of ?ser ?uri ?str "''42''" ?opts _ ?req _ _ _ ?lis js_to_string]
    a b c d
  show ?thesis by simp
qed

section \<open>Properties of the plugin\<close>

lemma lookup_js_set: "lookup (js_set ps name v) name = v"
  by (induction ps) (auto simp: lookup_def)

lemma hook_step_indexedFields:
  "indexedFields (fst (hook_step mergeModelOptions makeTypeUri st h)) = indexedFields st"
  by (cases h) (simp_all add: Let_def split: sum.splits)

lemma hook_step_supplied:
  "snd (hook_step mergeModelOptions makeTypeUri st h) = Inr c \<Longrightarrow>
   supplied_fields c = Some fs \<Longrightarrow> fs = JArr (map JStr (indexedFields st))"
  by (cases h) (auto simp: Let_def lookup_js_set split: sum.splits)

lemma run_hooks_supplied:
  "Inr c \<in> set (run_hooks mergeModelOptions makeTypeUri st hs) \<Longrightarrow>
   supplied_fields c = Some fs \<Longrightarrow> fs = JArr (map JStr (indexedFields st))"
proof (induction hs arbitrary: st)
  case Nil
  then show ?case by simp
next
  case (Cons h hs)
  from Cons.prems(1)
  consider "snd (hook_step mergeModelOptions makeTypeUri st h) = Inr c"
    | "Inr c \<in> set (run_hooks mergeModelOptions makeTypeUri
                      (fst (hook_step mergeModelOptions makeTypeUri st h)) hs)"
    by auto
  then show ?case
  proof cases
    case 1
    from hook_step_supplied [OF this Cons.prems(2)] show ?thesis .
  next
    case 2
    from Cons.IH [OF this Cons.prems(2)] show ?thesis
      by (simp add: hook_step_indexedFields)
  qed
qed

text \<open>
  Claim C8: the field set is computed when the plugin is attached, and every later call
  that serializes documents (the \<^verbatim>\<open>index\<close> call of the post-save hook and the
  \<^verbatim>\<open>sync\<close> call of the static) is handed that set as \<^verbatim>\<open>options.indexedFields\<close>,
  whatever hooks ran before and whatever the schema tree is by then.
\<close>

theorem indexedFields_computed_at_attach:
  assumes "elmongo tree opts = Inr st"
    and "Inr c \<in> set (run_hooks mergeModelOptions makeTypeUri st hs)"
    and "supplied_fields c = Some fs"
  shows "\<exists>attached. getIndexedFields tree = Inr attached \<and> fs = JArr (map JStr attached)"
proof -
  from assms(1) have "getIndexedFields tree = Inr (indexedFields st)"
    by (auto simp: elmongo_def split: sum.splits)
  with run_hooks_supplied [OF assms(2) assms(3)] show ?thesis by simp
qed

text \<open>
  Claim C7: every search URI that is built has the shape
  \<^verbatim>\<open>{host}:{port}/{target}/_search?search_type=dfs_query_then_fetch&preference=_primary_first\<close>;
  the target is the resolved collections joined with commas for \<^verbatim>\<open>elmongo.search\<close>
  and the configured index and type for the static \<^verbatim>\<open>search\<close> of a model.
\<close>

theorem search_uri_shape:
  "(elmongo_search mergeOptions makeDomainUri_spec elasticUrlOptions sOpts = (stored, sOpts', Inr uri) \<longrightarrow>
    (\<exists>merged targets.
       stored = Some merged \<and>
       fst (resolve_collections (lookup merged ''prefix'') sOpts) = Some targets \<and>
       uri = js_to_string (lookup merged ''host'') @ '':'' @ js_to_string (lookup merged ''port'')
             @ ''/'' @ join '','' targets
             @ ''/_search?search_type=dfs_query_then_fetch&preference=_primary_first''))
   \<and>
   (hook_step mergeModelOptions makeTypeUri_spec st (StaticsSearch this sOpts) = (st', Inr c) \<longrightarrow>
    (\<exists>merged.
       options st' = JObj merged \<and>
       c = SearchCall
             (js_to_string (lookup merged ''host'') @ '':'' @ js_to_string (lookup merged ''port'')
              @ ''/'' @ (js_to_string (lookup merged ''index'') @ ''/'' @ js_to_string (lookup merged ''type''))
              @ ''/_search?search_type=dfs_query_then_fetch&preference=_primary_first'')
             sOpts))"
proof (intro conjI impI)
  assume "elmongo_search mergeOptions makeDomainUri_spec elasticUrlOptions sOpts = (stored, sOpts', Inr uri)"
  then show "\<exists>merged targets.
       stored = Some merged \<and>
       fst (resolve_collections (lookup merged ''prefix'') sOpts) = Some targets \<and>
       uri = js_to_string (lookup merged ''host'') @ '':'' @ js_to_string (lookup merged ''port'')
             @ ''/'' @ join '','' targets
             @ ''/_search?search_type=dfs_query_then_fetch&preference=_primary_first''"
    by (auto simp: elmongo_search_def makeDomainUri_spec_def search_suffix_def
        split: sum.splits prod.splits option.splits)
next
  assume "hook_step mergeModelOptions makeTypeUri_spec st (StaticsSearch this sOpts) = (st', Inr c)"
  then show "\<exists>merged.
       options st' = JObj merged \<and>
       c = SearchCall
             (js_to_string (lookup merged ''host'') @ '':'' @ js_to_string (lookup merged ''port'')
              @ ''/'' @ (js_to_string (lookup merged ''index'') @ ''/'' @ js_to_string (lookup merged ''type''))
              @ ''/_search?search_type=dfs_query_then_fetch&preference=_primary_first'')
             sOpts"
    by (auto simp: makeTypeUri_spec_def search_suffix_def split: sum.splits)
qed

lemma js_number_to_string_9200: "js_number_to_string 9200 = ''9200''"
  by (simp add: js_number_to_string_def digit_char_def
      decimal.simps [of 9200] decimal.simps [of 920] decimal.simps [of 92] decimal.simps [of 9])

theorem indexedFields_computed_at_attach_witness:
  "elmongo [(''name'', JObj [(''type'', JStr ''String'')]),
            (''secret'', JObj [(''type'', JStr ''String''), (''es_no_index'', JBool True)])]
           (JObj [(''host'', JStr ''localhost'')])
     = Inr \<lparr>options = JObj [(''host'', JStr ''localhost'')], indexedFields = [''name'']\<rparr>
   \<and>
   run_hooks (\<lambda>stored this. case stored of JObj ps \<Rightarrow> Inr ps | _ \<Rightarrow> Inr []) (\<lambda>merged. Inr ''uri'')
     \<lparr>options = JObj [(''host'', JStr ''localhost'')], indexedFields = [''name'']\<rparr>
     [PostSave ''doc1'', StaticsSync ''User'' [(''added'', JStr ''String'')], PostRemove ''doc1'']
     = [Inr (IndexCall ''doc1'' [(''host'', JStr ''localhost''), (''indexedFields'', JArr [JStr ''name''])]),
        Inr (SyncCall ''User'' [(''added'', JStr ''String'')]
               [(''host'', JStr ''localhost''), (''indexedFields'', JArr [JStr ''name''])]),
        Inr (UnindexCall ''doc1'' [(''host'', JStr ''localhost''), (''indexedFields'', JArr [JStr ''name''])])]
   \<and>
   (\<exists>attached.
      getIndexedFields [(''name'', JObj [(''type'', JStr ''String'')]),
                        (''secret'', JObj [(''type'', JStr ''String''), (''es_no_index'', JBool True)])]
        = Inr attached
      \<and> JArr [JStr ''name''] = JArr (map JStr attached))"
proof -
  let ?tree = "[(''name'', JObj [(''type'', JStr ''String'')]),
                (''secret'', JObj [(''type'', JStr ''String''), (''es_no_index'', JBool True)])]"
  let ?st = "\<lparr>options = JObj [(''host'', JStr ''localhost'')], indexedFields = [''name'']\<rparr>"
  let ?mmo = "\<lambda>(stored :: jsval) (this :: string).
                (case stored of JObj ps \<Rightarrow> Inr ps | _ \<Rightarrow> Inr []) :: error + props"
  let ?mtu = "\<lambda>merged :: props. (Inr ''uri'' :: error + string)"
  let ?hs = "[PostSave ''doc1'', StaticsSync ''User'' [(''added'', JStr ''String'')], PostRemove ''doc1'']"
  let ?c = "SyncCall ''User'' [(''added'', JStr ''String'')]
               [(''host'', JStr ''localhost''), (''indexedFields'', JArr [JStr ''name''])]"
  have a: "elmongo ?tree (JObj [(''host'', JStr ''localhost'')]) = Inr ?st"
    by (simp add: elmongo_def getIndexedFields_def field_pushed_def lookup_def)
  have r: "run_hooks ?mmo ?mtu ?st ?hs
     = [Inr (IndexCall ''doc1'' [(''host'', JStr ''localhost''), (''indexedFields'', JArr [JStr ''name''])]),
        Inr ?c,
        Inr (UnindexCall ''doc1'' [(''host'', JStr ''localhost''), (''indexedFields'', JArr [JStr ''name''])])]"
    by (simp add: Let_def)
  have m: "Inr ?c \<in> set (run_hooks ?mmo ?mtu ?st ?hs)" unfolding r by simp
  have s: "supplied_fields ?c = Some (JArr [JStr ''name''])" by (simp add: lookup_def)
  from indexedFields_computed_at_attach [OF a m s] a r show ?thesis by simp
qed

theorem search_uri_shape_witness:
  "elmongo_search (\<lambda>stored. Inr [(''host'', JStr ''localhost''), (''port'', JNum 9200)])
     makeDomainUri_spec None \<lparr>collections = Some [''users'', ''orders''], rest = []\<rparr>
     = (Some [(''host'', JStr ''localhost''), (''port'', JNum 9200)],
        \<lparr>collections = Some [''users'', ''orders''], rest = []\<rparr>,
        Inr ''localhost:9200/users,orders/_search?search_type=dfs_query_then_fetch&preference=_primary_first'')
   \<and>
   hook_step (\<lambda>stored this. Inr [(''host'', JStr ''localhost''), (''port'', JNum 9200),
                                   (''index'', JStr ''app''), (''type'', JStr ''users'')])
     makeTypeUri_spec \<lparr>options = JUndefined, indexedFields = []\<rparr>
     (StaticsSearch ''User'' \<lparr>collections = None, rest = []\<rparr>)
     = (\<lparr>options = JObj [(''host'', JStr ''localhost''), (''port'', JNum 9200),
                           (''index'', JStr ''app''), (''type'', JStr ''users'')],
         indexedFields = []\<rparr>,
        Inr (SearchCall
               ''localhost:9200/app/users/_search?search_type=dfs_query_then_fetch&preference=_primary_first''
               \<lparr>collections = None, rest = []\<rparr>))
   \<and>
   (\<exists>targets.
      fst (resolve_collections (lookup [(''host'', JStr ''localhost''), (''port'', JNum 9200)] ''prefix'')
             \<lparr>collections = Some [''users'', ''orders''], rest = []\<rparr>) = Some targets \<and>
      ''localhost:9200/users,orders/_search?search_type=dfs_query_then_fetch&preference=_primary_first''
        = ''localhost'' @ '':'' @ ''9200'' @ ''/'' @ join '','' targets
          @ ''/_search?search_type=dfs_query_then_fetch&preference=_primary_first'')"
proof -
  let ?merged = "[(''host'', JStr ''localhost''), (''port'', JNum 9200)]"
  let ?mo = "\<lambda>stored :: jsval. (Inr ?merged :: error + props)"
  let ?sOpts = "\<lparr>collections = Some [''users'', ''orders''], rest = []\<rparr>"
  let ?uri = "''localhost:9200/users,orders/_search?search_type=dfs_query_then_fetch&preference=_primary_first''"
  let ?model = "[(''host'', JStr ''localhost''), (''port'', JNum 9200),
                 (''index'', JStr ''app''), (''type'', JStr ''users'')]"
  let ?mmo = "\<lambda>(stored :: jsval) (this :: string). (Inr ?model :: error + props)"
  let ?st = "\<lparr>options = JUndefined, indexedFields = []\<rparr>"
  let ?st' = "\<lparr>options = JObj ?model, indexedFields = []\<rparr>"
  let ?c = "SearchCall
               ''localhost:9200/app/users/_search?search_type=dfs_query_then_fetch&preference=_primary_first''
               \<lparr>collections = None, rest = []\<rparr>"
  have a: "elmongo_search ?mo makeDomainUri_spec None ?sOpts = (Some ?merged, ?sOpts, Inr ?uri)"
    by (simp add: elmongo_search_def resolve_collections_def makeDomainUri_spec_def lookup_def
        search_suffix_def js_number_to_string_9200)
  have b: "hook_step ?mmo makeTypeUri_spec ?st (StaticsSearch ''User'' \<lparr>collections = None, rest = []\<rparr>)
      = (?st', Inr ?c)"
    by (simp add: makeTypeUri_spec_def lookup_def search_suffix_def js_number_to_string_9200)
  from search_uri_shape [of ?mo None ?sOpts "Some ?merged" ?sOpts ?uri ?mmo ?st "''User''" ?st' ?c]
    a b
  have "\<exists>merged targets.
       Some ?merged = Some merged \<and>
       fst (resolve_collections (lookup merged ''prefix'') ?sOpts) = Some targets \<and>
       ?uri = js_to_string (lookup merged ''host'') @ '':'' @ js_to_string (lookup merged ''port'')
             @ ''/'' @ join '','' targets
             @ ''/_search?search_type=dfs_query_then_fetch&preference=_primary_first''"
    by simp
  then have "\<exists>targets.
       fst (resolve_collections (lookup ?merged ''prefix'') ?sOpts) = Some targets \<and>
       ?uri = ''localhost'' @ '':'' @ ''9200'' @ ''/'' @ join '','' targets
             @ ''/_search?search_type=dfs_query_then_fetch&preference=_primary_first''"
    by (simp add: lookup_def js_number_to_string_9200)
  with a b show ?thesis by simp
qed

end
